theory Spec2Isabelle
  imports Main
begin

section \<open>JavaScript values and the execution context\<close>

text \<open>
  The values that flow through the theme code: \<open>null\<close> (what \<open>localStorage.getItem\<close>
  returns for a missing key), booleans (\<open>typeof window !== 'undefined'\<close>, the \<open>matches\<close>
  field of a media query) and strings.
\<close>

datatype jsval = JNull | JBool bool | JStr string

text \<open>JavaScript truthiness: \<open>null\<close>, \<open>false\<close> and the empty string are falsy.\<close>

fun truthy :: "jsval \<Rightarrow> bool" where
  "truthy JNull = False"
| "truthy (JBool b) = b"
| "truthy (JStr s) = (s \<noteq> [])"

text \<open>
  \<open>setAttribute\<close> and \<open>localStorage.setItem\<close> store the string conversion of the value
  they are given.
\<close>

fun to_str :: "jsval \<Rightarrow> string" where
  "to_str JNull = ''null''"
| "to_str (JBool b) = (if b then ''true'' else ''false'')"
| "to_str (JStr s) = s"

datatype js_error = ReferenceError | SecurityError | TypeError

text \<open>
  The execution context. \<open>has_window\<close> is false where the globals \<open>window\<close>,
  \<open>document\<close> and \<open>localStorage\<close> are not declared (a render pass on a server): reading
  one of them there raises \<open>ReferenceError\<close>, while \<open>typeof window\<close> does not.
  \<open>storage\<close> is the content of \<open>localStorage\<close>, \<open>None\<close> when access to the store raises
  (storage disabled). \<open>prefers_dark\<close> is what
  \<open>window.matchMedia('(prefers-color-scheme: dark)').matches\<close> reads. \<open>root\<close> holds the
  attributes of \<open>document.documentElement\<close>, \<open>None\<close> when that element is \<open>null\<close>.
\<close>

record page =
  has_window :: bool
  storage :: "(string \<rightharpoonup> string) option"
  prefers_dark :: bool
  root :: "(string \<rightharpoonup> string) option"

text \<open>The runtime holder adds the React state cell \<open>theme\<close> of \<open>ThemeProvider\<close>.\<close>

record holder = page +
  theme :: jsval

text \<open>
  A statement runs on a state and yields either a value or a raised exception, together
  with the state it leaves behind: what was written before a \<open>throw\<close> stays written.
\<close>

type_synonym ('s, 'a) js = "'s \<Rightarrow> (js_error + 'a) \<times> 's"

definition ret :: "'a \<Rightarrow> ('s, 'a) js" where
  "ret v s = (Inr v, s)"

definition bindJ :: "('s, 'a) js \<Rightarrow> ('a \<Rightarrow> ('s, 'b) js) \<Rightarrow> ('s, 'b) js" where
  "bindJ m f s = (case m s of (Inl e, s') \<Rightarrow> (Inl e, s') | (Inr v, s') \<Rightarrow> f v s')"

text \<open>The outcome of a statement and the state after it.\<close>

definition outcome :: "('s, 'a) js \<Rightarrow> 's \<Rightarrow> js_error + 'a" where
  "outcome m s = fst (m s)"

definition exec :: "('s, 'a) js \<Rightarrow> 's \<Rightarrow> 's" where
  "exec m s = snd (m s)"

text \<open>\<open>a || b\<close> and \<open>a && b\<close>: the right operand is evaluated only when the left one
  does not decide the result.\<close>

definition js_or :: "('s, jsval) js \<Rightarrow> ('s, jsval) js \<Rightarrow> ('s, jsval) js" where
  "js_or a b = bindJ a (\<lambda>v. if truthy v then ret v else b)"

definition js_and :: "('s, jsval) js \<Rightarrow> ('s, jsval) js \<Rightarrow> ('s, jsval) js" where
  "js_and a b = bindJ a (\<lambda>v. if truthy v then b else ret v)"

text \<open>\<open>c ? a : b\<close> on values.\<close>

definition js_cond :: "jsval \<Rightarrow> jsval \<Rightarrow> jsval \<Rightarrow> jsval" where
  "js_cond c a b = (if truthy c then a else b)"

text \<open>\<open>const themes = { light: 'light', dark: 'dark' }\<close>\<close>

definition themes_light :: jsval where
  "themes_light = JStr ''light''"

definition themes_dark :: jsval where
  "themes_dark = JStr ''dark''"

subsection \<open>The collaborators\<close>

text \<open>\<open>typeof window !== 'undefined'\<close>\<close>

definition window_defined :: "('a page_scheme, jsval) js" where
  "window_defined s = (Inr (JBool (has_window s)), s)"

text \<open>\<open>localStorage.getItem(k)\<close>\<close>

definition getItem :: "string \<Rightarrow> ('a page_scheme, jsval) js" where
  "getItem k s =
     (if \<not> has_window s then (Inl ReferenceError, s)
      else case storage s of
        None \<Rightarrow> (Inl SecurityError, s)
      | Some m \<Rightarrow> (Inr (case m k of None \<Rightarrow> JNull | Some v \<Rightarrow> JStr v), s))"

text \<open>\<open>localStorage.setItem(k, v)\<close>\<close>

definition setItem :: "string \<Rightarrow> jsval \<Rightarrow> ('a page_scheme, unit) js" where
  "setItem k v s =
     (if \<not> has_window s then (Inl ReferenceError, s)
      else case storage s of
        None \<Rightarrow> (Inl SecurityError, s)
      | Some m \<Rightarrow> (Inr (), s\<lparr>storage := Some (m(k \<mapsto> to_str v))\<rparr>))"

text \<open>\<open>window.matchMedia('(prefers-color-scheme: dark)').matches\<close>\<close>

definition matchMedia_dark :: "('a page_scheme, jsval) js" where
  "matchMedia_dark s =
     (if \<not> has_window s then (Inl ReferenceError, s)
      else (Inr (JBool (prefers_dark s)), s))"

text \<open>\<open>document.documentElement.setAttribute(k, v)\<close>\<close>

definition setAttribute :: "string \<Rightarrow> jsval \<Rightarrow> ('a page_scheme, unit) js" where
  "setAttribute k v s =
     (if \<not> has_window s then (Inl ReferenceError, s)
      else case root s of
        None \<Rightarrow> (Inl TypeError, s)
      | Some a \<Rightarrow> (Inr (), s\<lparr>root := Some (a(k \<mapsto> to_str v))\<rparr>))"

text \<open>The \<open>data-theme\<close> attribute of the document root, where there is a root.\<close>

definition applied_theme :: "'a page_scheme \<Rightarrow> string option" where
  "applied_theme s = (case root s of None \<Rightarrow> None | Some a \<Rightarrow> a ''data-theme'')"

text \<open>The persisted preference: the store's value under the key \<open>theme\<close>.\<close>

definition persisted :: "'a page_scheme \<Rightarrow> string option" where
  "persisted s = (case storage s of None \<Rightarrow> None | Some m \<Rightarrow> m ''theme'')"

section \<open>The bootstrap scripts\<close>

text \<open>
  \<open>src/utils/themeInitializer.js\<close>, the standalone script: the stored theme, or else the
  system preference, read only when the stored theme is falsy.
\<close>

definition themeInitializer_theme :: "('a page_scheme, jsval) js" where
  "themeInitializer_theme =
     js_or (getItem ''theme'')
           (bindJ matchMedia_dark (\<lambda>m. ret (js_cond m (JStr ''dark'') (JStr ''light''))))"

definition themeInitializer :: "('a page_scheme, unit) js" where
  "themeInitializer = bindJ themeInitializer_theme (\<lambda>theme. setAttribute ''data-theme'' theme)"

text \<open>
  \<open>src/utils/getThemeScript.js\<close>: what the script text does when the page runs it. It reads
  the store and the media query first and combines the two values afterwards.
\<close>

definition getThemeScript_theme :: "('a page_scheme, jsval) js" where
  "getThemeScript_theme =
     bindJ (getItem ''theme'') (\<lambda>storedTheme.
     bindJ matchMedia_dark (\<lambda>prefersDark.
     js_or (ret storedTheme) (ret (js_cond prefersDark (JStr ''dark'') (JStr ''light'')))))"

definition getThemeScript :: "('a page_scheme, unit) js" where
  "getThemeScript = bindJ getThemeScript_theme (\<lambda>theme. setAttribute ''data-theme'' theme)"

section \<open>The runtime holder\<close>

text \<open>\<open>setTheme(v)\<close>: the state cell holds \<open>v\<close> from the next render on.\<close>

definition setTheme :: "jsval \<Rightarrow> ('a holder_scheme, unit) js" where
  "setTheme v s = (Inr (), s\<lparr>theme := v\<rparr>)"

subsection \<open>\<open>ThemeProvider\<close> with the lazy initializer\<close>

text \<open>
  The initializer passed to \<open>useState\<close>:
  \<open>(typeof window !== 'undefined' && localStorage.getItem('theme')) ||
    (window.matchMedia('(prefers-color-scheme: dark)').matches ? themes.dark : themes.light)\<close>.
  The guard covers the left operand of \<open>||\<close> only.
\<close>

definition ThemeProvider_initial :: "('a page_scheme, jsval) js" where
  "ThemeProvider_initial =
     js_or (js_and window_defined (getItem ''theme''))
           (bindJ matchMedia_dark (\<lambda>m. ret (js_cond m themes_dark themes_light)))"

text \<open>
  The earlier form of the same initializer, with the guard around the whole expression:
  \<open>if (typeof window !== 'undefined') { return localStorage.getItem('theme') || (...) }
    return themes.light\<close>.
\<close>

definition ThemeProvider_initial_guarded :: "('a page_scheme, jsval) js" where
  "ThemeProvider_initial_guarded =
     bindJ window_defined (\<lambda>w.
       if truthy w
       then js_or (getItem ''theme'')
                  (bindJ matchMedia_dark (\<lambda>m. ret (js_cond m themes_dark themes_light)))
       else ret themes_light)"

text \<open>
  \<open>toggleTheme\<close>: \<open>theme\<close> is the value of the state cell in the render that created the
  handler.
\<close>

definition toggleTheme :: "('a holder_scheme, unit) js" where
  "toggleTheme s =
     (let newTheme = (if theme s = themes_light then themes_dark else themes_light) in
      bindJ (setTheme newTheme) (\<lambda>_.
      bindJ (setAttribute ''data-theme'' newTheme) (\<lambda>_.
      setItem ''theme'' newTheme))) s"

text \<open>\<open>useEffect(() => { document.documentElement.setAttribute('data-theme', theme) }, [theme])\<close>\<close>

definition ThemeProvider_effect :: "('a holder_scheme, unit) js" where
  "ThemeProvider_effect s = setAttribute ''data-theme'' (theme s) s"

text \<open>
  Mounting: the first render runs the initializer and fills the state cell, then the effect
  runs. A render that throws mounts nothing, so the effect does not run after it.
\<close>

definition ThemeProvider_mount :: "('a holder_scheme, unit) js" where
  "ThemeProvider_mount =
     bindJ ThemeProvider_initial (\<lambda>t. bindJ (setTheme t) (\<lambda>_. ThemeProvider_effect))"

text \<open>
  One call of the handler by a consumer, followed by the render it schedules: the effect
  depends on \<open>[theme]\<close> and runs again when the cell has changed. An exception ends the
  handler, not the holder, so the state it leaves is where the next call starts.
\<close>

definition toggle_and_render :: "'a holder_scheme \<Rightarrow> 'a holder_scheme" where
  "toggle_and_render s =
     (let s1 = exec toggleTheme s in
      if theme s1 = theme s then s1 else exec ThemeProvider_effect s1)"

subsection \<open>\<open>ThemeProvider\<close> of \<open>src/context/ThemeContext.js\<close>\<close>

definition getInitialTheme :: "('a page_scheme, jsval) js" where
  "getInitialTheme =
     bindJ (getItem ''theme'') (\<lambda>storedTheme.
       if truthy storedTheme then ret storedTheme
       else bindJ matchMedia_dark (\<lambda>userPreferedScheme.
              ret (js_cond userPreferedScheme themes_dark themes_light)))"

text \<open>Here the handler calls \<open>setTheme(newTheme)\<close> a second time after \<open>setAttribute\<close>.\<close>

definition toggleTheme_ctx :: "('a holder_scheme, unit) js" where
  "toggleTheme_ctx s =
     (let newTheme = (if theme s = themes_light then themes_dark else themes_light) in
      bindJ (setTheme newTheme) (\<lambda>_.
      bindJ (setAttribute ''data-theme'' newTheme) (\<lambda>_.
      setTheme newTheme))) s"

text \<open>The effect with the empty dependency list: it runs once, after the first render.\<close>

definition ThemeProvider_effect_ctx :: "('a holder_scheme, unit) js" where
  "ThemeProvider_effect_ctx =
     bindJ window_defined (\<lambda>w.
       if truthy w
       then bindJ getInitialTheme (\<lambda>initialTheme.
            bindJ (setTheme initialTheme) (\<lambda>_.
            bindJ (setAttribute ''data-theme'' initialTheme) (\<lambda>_.
            setItem ''theme'' initialTheme)))
       else ret ())"

text \<open>Mounting: \<open>useState(themes.light)\<close>, then the effect.\<close>

definition ThemeProvider_mount_ctx :: "('a holder_scheme, unit) js" where
  "ThemeProvider_mount_ctx = bindJ (setTheme themes_light) (\<lambda>_. ThemeProvider_effect_ctx)"

text \<open>The effect does not depend on \<open>theme\<close>, so a call of the handler is all that runs.\<close>

definition toggle_and_render_ctx :: "'a holder_scheme \<Rightarrow> 'a holder_scheme" where
  "toggle_and_render_ctx s = exec toggleTheme_ctx s"

section \<open>The resolution order of the specification\<close>

text \<open>
  The specification's wording of the resolution, for comparison with the code: the
  persisted preference if it is one of the two valid values, otherwise \<open>dark\<close> if the
  system prefers dark, otherwise \<open>light\<close>.
\<close>

definition spec_resolution :: "string option \<Rightarrow> bool \<Rightarrow> string" where
  "spec_resolution p d =
     (case p of
        Some v \<Rightarrow> if v = ''light'' \<or> v = ''dark'' then v
                  else if d then ''dark'' else ''light''
      | None \<Rightarrow> if d then ''dark'' else ''light'')"

section \<open>Concrete execution contexts\<close>

text \<open>A browser page on a first visit: empty store, no attribute on the root.\<close>

definition first_visit :: "bool \<Rightarrow> holder" where
  "first_visit d = \<lparr>has_window = True, storage = Some Map.empty, prefers_dark = d,
     root = Some Map.empty, theme = JNull\<rparr>"

text \<open>A browser page whose store holds \<open>v\<close> under the key \<open>theme\<close>.\<close>

definition visit_with :: "string \<Rightarrow> bool \<Rightarrow> holder" where
  "visit_with v d = \<lparr>has_window = True, storage = Some [''theme'' \<mapsto> v], prefers_dark = d,
     root = Some Map.empty, theme = JNull\<rparr>"

text \<open>A browser page whose store cannot be accessed, and one without a root element.\<close>

definition storage_denied :: holder where
  "storage_denied = \<lparr>has_window = True, storage = None, prefers_dark = True,
     root = Some Map.empty, theme = JNull\<rparr>"

definition rootless :: holder where
  "rootless = \<lparr>has_window = True, storage = Some Map.empty, prefers_dark = True,
     root = None, theme = JNull\<rparr>"

text \<open>A render pass on a server: no \<open>window\<close>, \<open>document\<close> or \<open>localStorage\<close>.\<close>

definition server_render :: holder where
  "server_render = \<lparr>has_window = False, storage = None, prefers_dark = False,
     root = None, theme = JNull\<rparr>"

section \<open>Properties\<close>

lemmas js_defs = ret_def bindJ_def outcome_def exec_def js_or_def js_and_def
  js_cond_def window_defined_def getItem_def setItem_def matchMedia_dark_def setAttribute_def
  themes_light_def themes_dark_def

lemma themeInitializer_theme_eq: "themeInitializer_theme s = getThemeScript_theme s"
  by (simp add: themeInitializer_theme_def getThemeScript_theme_def js_defs
      split: option.splits)

text \<open>
  C7. The standalone script \<open>themeInitializer.js\<close> and the script text of
  \<open>getThemeScript\<close> run the same resolution: in every execution context they compute the
  same theme, end with the same outcome and leave the same document root attributes.
\<close>

theorem scripts_agree:
  "themeInitializer_theme s = getThemeScript_theme s \<and> themeInitializer s = getThemeScript s"
  by (simp add: themeInitializer_def getThemeScript_def bindJ_def themeInitializer_theme_eq)

text \<open>
  C8. The bootstrap resolver is idempotent: on an unchanged store and system preference,
  a second run ends with the same outcome as the first and leaves the state, and so the
  \<open>data-theme\<close> attribute, exactly as one run leaves it.
\<close>

theorem themeInitializer_idempotent:
  "exec themeInitializer (exec themeInitializer s) = exec themeInitializer s
   \<and> outcome themeInitializer (exec themeInitializer s) = outcome themeInitializer s
   \<and> applied_theme (exec themeInitializer (exec themeInitializer s))
       = applied_theme (exec themeInitializer s)"
  by (simp add: themeInitializer_def themeInitializer_theme_def js_defs
      split: option.splits)

subsection \<open>Resolution\<close>

lemma getThemeScript_theme_browser:
  assumes "has_window s" "storage s = Some m"
  shows "getThemeScript_theme s =
    (Inr (case m ''theme'' of
            None \<Rightarrow> JStr (if prefers_dark s then ''dark'' else ''light'')
          | Some v \<Rightarrow> if v = [] then JStr (if prefers_dark s then ''dark'' else ''light'')
                      else JStr v), s)"
  using assms by (simp add: getThemeScript_theme_def js_defs split: option.splits)

lemma ThemeProvider_initial_browser:
  assumes "has_window s" "storage s = Some m"
  shows "ThemeProvider_initial s =
    (Inr (case m ''theme'' of
            None \<Rightarrow> JStr (if prefers_dark s then ''dark'' else ''light'')
          | Some v \<Rightarrow> if v = [] then JStr (if prefers_dark s then ''dark'' else ''light'')
                      else JStr v), s)"
  using assms by (simp add: ThemeProvider_initial_def js_defs split: option.splits)

text \<open>
  C1, as stated, fails: with \<open>blue\<close> persisted and a system that prefers dark, the
  specification's resolution is \<open>dark\<close>, while the script and the holder's initializer
  both resolve to \<open>blue\<close>.
\<close>

theorem resolution_invalid_counterexample:
  "persisted (visit_with ''blue'' True) = Some ''blue''
   \<and> spec_resolution (persisted (visit_with ''blue'' True)) True = ''dark''
   \<and> outcome getThemeScript_theme (visit_with ''blue'' True) = Inr (JStr ''blue'')
   \<and> outcome ThemeProvider_initial (visit_with ''blue'' True) = Inr (JStr ''blue'')
   \<and> outcome getThemeScript_theme (visit_with ''blue'' True)
        \<noteq> Inr (JStr (spec_resolution (persisted (visit_with ''blue'' True)) True))"
  by (simp add: visit_with_def persisted_def spec_resolution_def
      getThemeScript_theme_def ThemeProvider_initial_def js_defs)

text \<open>
  C1, amended. In a browser with an accessible store, the script's resolution and the
  holder's initializer return the persisted value if it is \<open>light\<close> or \<open>dark\<close>; if nothing
  or the empty string is persisted they return \<open>dark\<close> if the system prefers dark and
  \<open>light\<close> otherwise, as the specification's resolution does. Any other persisted string
  is not treated as absent: it is returned as it is.
\<close>

theorem resolution_valid_or_absent:
  assumes "has_window s" and "storage s = Some m"
  shows "(m ''theme'' \<in> {None, Some ''light'', Some ''dark'', Some []} \<longrightarrow>
           outcome getThemeScript_theme s
             = Inr (JStr (spec_resolution (m ''theme'') (prefers_dark s)))
           \<and> outcome ThemeProvider_initial s
             = Inr (JStr (spec_resolution (m ''theme'') (prefers_dark s))))
    \<and> (\<forall>v. m ''theme'' = Some v \<and> v \<noteq> [] \<longrightarrow>
           outcome getThemeScript_theme s = Inr (JStr v)
           \<and> outcome ThemeProvider_initial s = Inr (JStr v))"
  using assms
  by (auto simp add: outcome_def getThemeScript_theme_browser ThemeProvider_initial_browser
      spec_resolution_def)

theorem resolution_valid_or_absent_witness:
  "outcome getThemeScript_theme (visit_with ''light'' True) = Inr (JStr ''light'')
   \<and> outcome ThemeProvider_initial (visit_with ''light'' True) = Inr (JStr ''light'')
   \<and> outcome getThemeScript_theme (first_visit True) = Inr (JStr ''dark'')
   \<and> outcome ThemeProvider_initial (first_visit False) = Inr (JStr ''light'')
   \<and> outcome getThemeScript_theme (visit_with ''blue'' False) = Inr (JStr ''blue'')"
  using resolution_valid_or_absent [of "visit_with ''light'' True" "[''theme'' \<mapsto> ''light'']"]
    resolution_valid_or_absent [of "first_visit True" Map.empty]
    resolution_valid_or_absent [of "first_visit False" Map.empty]
    resolution_valid_or_absent [of "visit_with ''blue'' False" "[''theme'' \<mapsto> ''blue'']"]
  by (simp add: visit_with_def first_visit_def spec_resolution_def)

text \<open>
  C9. The stored value is selected by truthiness. In a browser with an accessible store, a
  persisted empty string resolves exactly as an absent value does (to the system
  preference), in the script and in the holder's initializer; every non-empty persisted
  string, valid or not, is the resolved theme, and the script stamps it on the document
  root.
\<close>

theorem resolution_by_truthiness:
  assumes "has_window s" and "storage s = Some m"
  shows "(m ''theme'' = Some [] \<longrightarrow>
           outcome getThemeScript_theme s
             = outcome getThemeScript_theme (s\<lparr>storage := Some (m(''theme'' := None))\<rparr>)
           \<and> outcome ThemeProvider_initial s
             = outcome ThemeProvider_initial (s\<lparr>storage := Some (m(''theme'' := None))\<rparr>)
           \<and> outcome getThemeScript_theme s
             = Inr (JStr (if prefers_dark s then ''dark'' else ''light''))
           \<and> applied_theme (exec getThemeScript s)
             = applied_theme (exec getThemeScript (s\<lparr>storage := Some (m(''theme'' := None))\<rparr>)))
    \<and> (\<forall>v. m ''theme'' = Some v \<and> v \<noteq> [] \<longrightarrow>
           outcome getThemeScript_theme s = Inr (JStr v)
           \<and> outcome ThemeProvider_initial s = Inr (JStr v)
           \<and> (root s = None \<or> applied_theme (exec getThemeScript s) = Some v))"
  using assms
  by (auto simp add: outcome_def exec_def getThemeScript_theme_browser
      ThemeProvider_initial_browser getThemeScript_def bindJ_def setAttribute_def
      applied_theme_def split: option.splits)

theorem resolution_by_truthiness_witness:
  "outcome getThemeScript_theme (visit_with [] True)
     = outcome getThemeScript_theme (first_visit True)
   \<and> outcome getThemeScript_theme (visit_with [] True) = Inr (JStr ''dark'')
   \<and> outcome getThemeScript_theme (visit_with ''solarized'' False) = Inr (JStr ''solarized'')
   \<and> outcome ThemeProvider_initial (visit_with ''solarized'' False) = Inr (JStr ''solarized'')
   \<and> applied_theme (exec getThemeScript (visit_with ''solarized'' False)) = Some ''solarized''"
proof -
  have absent: "(visit_with [] True)\<lparr>storage := Some ([''theme'' \<mapsto> []](''theme'' := None))\<rparr>
      = first_visit True"
    by (simp add: visit_with_def first_visit_def)
  have empty: "has_window (visit_with [] True)"
    "storage (visit_with [] True) = Some [''theme'' \<mapsto> []]"
    "[''theme'' \<mapsto> []] ''theme'' = Some []" "prefers_dark (visit_with [] True)"
    by (simp_all add: visit_with_def)
  have other: "has_window (visit_with ''solarized'' False)"
    "storage (visit_with ''solarized'' False) = Some [''theme'' \<mapsto> ''solarized'']"
    "[''theme'' \<mapsto> ''solarized''] ''theme'' = Some ''solarized''"
    "root (visit_with ''solarized'' False) \<noteq> None"
    by (simp_all add: visit_with_def)
  show ?thesis
    using resolution_by_truthiness [OF empty(1,2)] resolution_by_truthiness [OF other(1,2)]
      empty(3,4) other(3,4)
    unfolding absent by auto
qed

subsection \<open>Missing collaborators\<close>

text \<open>
  C4, as stated, fails: where the store cannot be read, both bootstrap scripts end with
  the \<open>SecurityError\<close> of \<open>getItem\<close>, and where the document has no root element, with
  the \<open>TypeError\<close> of \<open>setAttribute\<close>; neither completes normally.
\<close>

theorem bootstrap_throws_counterexample:
  "outcome themeInitializer storage_denied = Inl SecurityError
   \<and> outcome getThemeScript storage_denied = Inl SecurityError
   \<and> applied_theme (exec themeInitializer storage_denied) = None
   \<and> outcome themeInitializer rootless = Inl TypeError
   \<and> outcome getThemeScript rootless = Inl TypeError"
  by (simp add: storage_denied_def rootless_def themeInitializer_def getThemeScript_def
      themeInitializer_theme_def getThemeScript_theme_def applied_theme_def js_defs)

text \<open>
  C4, amended. The bootstrap scripts have no handler: whenever the globals are missing,
  the store cannot be read or the document has no root element, the exception reaches the
  caller (\<open>ReferenceError\<close>, \<open>SecurityError\<close> or \<open>TypeError\<close>, in this order of
  precedence) and the state, with the document root's attributes, is left as it was.
\<close>

theorem bootstrap_propagates:
  assumes "\<not> has_window s \<or> storage s = None \<or> root s = None"
  shows "outcome themeInitializer s =
           Inl (if \<not> has_window s then ReferenceError
                else if storage s = None then SecurityError else TypeError)
    \<and> outcome getThemeScript s = outcome themeInitializer s
    \<and> exec themeInitializer s = s
    \<and> exec getThemeScript s = s"
  using assms
  by (auto simp add: themeInitializer_def getThemeScript_def
      themeInitializer_theme_def getThemeScript_theme_def js_defs split: option.splits)

theorem bootstrap_propagates_witness:
  "outcome themeInitializer storage_denied = Inl SecurityError
   \<and> exec themeInitializer storage_denied = storage_denied
   \<and> outcome getThemeScript rootless = Inl TypeError
   \<and> exec getThemeScript rootless = rootless"
  using bootstrap_propagates [of storage_denied] bootstrap_propagates [of rootless]
  by (simp add: storage_denied_def rootless_def)

text \<open>
  C3. On a render pass without \<open>window\<close>, the initializer of \<open>ThemeProvider\<close> guards only
  the read of the store: the fallback reads \<open>window.matchMedia\<close> and raises
  \<open>ReferenceError\<close>, so the holder does not mount with \<open>light\<close>.
\<close>

theorem ThemeProvider_initial_server_throws:
  "outcome ThemeProvider_initial server_render = Inl ReferenceError
   \<and> outcome ThemeProvider_mount server_render = Inl ReferenceError"
  by (simp add: server_render_def ThemeProvider_initial_def ThemeProvider_mount_def js_defs)

text \<open>
  The guarded form of the initializer, and the holder of \<open>ThemeContext.js\<close>, do what C3
  asks for: without \<open>window\<close> they evaluate to \<open>light\<close> and raise nothing.
\<close>

lemma ThemeProvider_initial_guarded_server:
  "\<not> has_window s \<Longrightarrow> ThemeProvider_initial_guarded s = (Inr (JStr ''light''), s)"
  by (simp add: ThemeProvider_initial_guarded_def js_defs)

lemma ThemeProvider_mount_ctx_server:
  "\<not> has_window s \<Longrightarrow> ThemeProvider_mount_ctx s = (Inr (), s\<lparr>theme := JStr ''light''\<rparr>)"
  by (simp add: ThemeProvider_mount_ctx_def ThemeProvider_effect_ctx_def setTheme_def js_defs)

lemma ThemeProvider_initial_guarded_browser:
  "has_window s \<Longrightarrow> ThemeProvider_initial_guarded s = ThemeProvider_initial s"
  by (simp add: ThemeProvider_initial_guarded_def ThemeProvider_initial_def js_defs)

subsection \<open>Toggling\<close>

lemmas holder_defs = setTheme_def toggleTheme_def ThemeProvider_effect_def
  ThemeProvider_mount_def toggle_and_render_def getInitialTheme_def toggleTheme_ctx_def
  ThemeProvider_effect_ctx_def ThemeProvider_mount_ctx_def toggle_and_render_ctx_def
  Let_def

text \<open>
  What \<open>toggleTheme\<close> of the lazily initialised \<open>ThemeProvider\<close> does in a browser with a
  store and a root element: it completes, the cell holds the opposite theme, and the
  attribute and the store hold that same value, so that a fresh resolution returns it
  whatever the system prefers.
\<close>

lemma toggleTheme_roundtrip:
  assumes "has_window s" and "storage s = Some m" and "root s = Some a"
  shows "outcome toggleTheme s = Inr ()
    \<and> theme (exec toggleTheme s)
        = (if theme s = JStr ''light'' then JStr ''dark'' else JStr ''light'')
    \<and> applied_theme (exec toggleTheme s) = Some (to_str (theme (exec toggleTheme s)))
    \<and> persisted (exec toggleTheme s) = Some (to_str (theme (exec toggleTheme s)))
    \<and> (\<forall>d. outcome ThemeProvider_initial ((exec toggleTheme s)\<lparr>prefers_dark := d\<rparr>)
             = Inr (theme (exec toggleTheme s)))
    \<and> (\<forall>d. outcome getThemeScript_theme ((exec toggleTheme s)\<lparr>prefers_dark := d\<rparr>)
             = Inr (theme (exec toggleTheme s)))"
  using assms
  by (simp add: holder_defs js_defs applied_theme_def persisted_def
      ThemeProvider_initial_def getThemeScript_theme_def)

text \<open>
  The order of the three writes shows where one of them raises: without a root element
  the cell is already updated and the store is not yet written; with a store that cannot
  be written, the cell and the attribute are already updated.
\<close>

lemma toggleTheme_order:
  assumes "has_window s"
  shows "root s = None \<longrightarrow>
           outcome toggleTheme s = Inl TypeError
           \<and> theme (exec toggleTheme s) \<noteq> theme s
           \<and> storage (exec toggleTheme s) = storage s"
    and "root s \<noteq> None \<and> storage s = None \<longrightarrow>
           outcome toggleTheme s = Inl SecurityError
           \<and> theme (exec toggleTheme s) \<noteq> theme s
           \<and> applied_theme (exec toggleTheme s) = Some (to_str (theme (exec toggleTheme s)))"
  using assms
  by (auto simp add: holder_defs js_defs applied_theme_def split: option.splits)

lemma toggleTheme_ctx_storage: "storage (exec toggleTheme_ctx s) = storage s"
  by (simp add: holder_defs js_defs split: option.splits)

text \<open>
  C2. The handler of \<open>ThemeContext.js\<close> does not write the store. A holder mounted on a
  first visit with a light system preference holds \<open>light\<close> and has persisted \<open>light\<close>;
  one call of \<open>toggleTheme\<close> completes and moves the cell and the attribute to \<open>dark\<close>,
  while the store still holds \<open>light\<close>, which is what a fresh resolution returns.
\<close>

theorem toggleTheme_ctx_not_persisted:
  "theme (exec ThemeProvider_mount_ctx (first_visit False)) = JStr ''light''
   \<and> persisted (exec ThemeProvider_mount_ctx (first_visit False)) = Some ''light''
   \<and> outcome toggleTheme_ctx (exec ThemeProvider_mount_ctx (first_visit False)) = Inr ()
   \<and> theme (exec toggleTheme_ctx (exec ThemeProvider_mount_ctx (first_visit False)))
       = JStr ''dark''
   \<and> applied_theme (exec toggleTheme_ctx (exec ThemeProvider_mount_ctx (first_visit False)))
       = Some ''dark''
   \<and> persisted (exec toggleTheme_ctx (exec ThemeProvider_mount_ctx (first_visit False)))
       = Some ''light''
   \<and> outcome getInitialTheme
        (exec toggleTheme_ctx (exec ThemeProvider_mount_ctx (first_visit False)))
       = Inr (JStr ''light'')"
  by (simp add: first_visit_def holder_defs js_defs applied_theme_def persisted_def)

text \<open>One toggle, field by field.\<close>

lemma toggle_and_render_theme:
  "theme (toggle_and_render s) = (if theme s = JStr ''light'' then JStr ''dark'' else JStr ''light'')"
  by (simp add: holder_defs js_defs split: option.splits)

lemma toggle_and_render_has_window: "has_window (toggle_and_render s) = has_window s"
  by (simp add: holder_defs js_defs split: option.splits)

lemma toggle_and_render_root:
  "root (toggle_and_render s) =
     (if has_window s
      then map_option (\<lambda>a. a(''data-theme'' \<mapsto> to_str (theme (toggle_and_render s)))) (root s)
      else root s)"
  by (simp add: holder_defs js_defs split: option.splits)

lemma toggle_and_render_ctx_theme:
  "theme (toggle_and_render_ctx s)
     = (if theme s = JStr ''light'' then JStr ''dark'' else JStr ''light'')"
  by (simp add: holder_defs js_defs split: option.splits)

lemma toggle_and_render_ctx_has_window:
  "has_window (toggle_and_render_ctx s) = has_window s"
  by (simp add: holder_defs js_defs split: option.splits)

lemma toggle_and_render_ctx_root:
  "root (toggle_and_render_ctx s) =
     (if has_window s
      then map_option (\<lambda>a. a(''data-theme'' \<mapsto> to_str (theme (toggle_and_render_ctx s)))) (root s)
      else root s)"
  by (simp add: holder_defs js_defs split: option.splits)

lemma toggle_and_render_ctx_storage: "storage (toggle_and_render_ctx s) = storage s"
  by (simp add: holder_defs js_defs split: option.splits)

lemmas toggle_fields = toggle_and_render_theme toggle_and_render_has_window
  toggle_and_render_root toggle_and_render_ctx_theme toggle_and_render_ctx_has_window
  toggle_and_render_ctx_root

text \<open>
  C5, as stated, fails. A holder mounted over the persisted string \<open>blue\<close> holds \<open>blue\<close>
  in the cell and on the root; two toggles leave \<open>dark\<close> in both. And where other code
  has set the attribute to \<open>sepia\<close> under a holder that holds \<open>light\<close>, two toggles leave
  the attribute at \<open>light\<close>.
\<close>

theorem toggle_twice_counterexample:
  "theme (exec ThemeProvider_mount (visit_with ''blue'' False)) = JStr ''blue''
   \<and> applied_theme (exec ThemeProvider_mount (visit_with ''blue'' False)) = Some ''blue''
   \<and> theme (toggle_and_render (toggle_and_render
        (exec ThemeProvider_mount (visit_with ''blue'' False)))) = JStr ''dark''
   \<and> applied_theme (toggle_and_render (toggle_and_render
        (exec ThemeProvider_mount (visit_with ''blue'' False)))) = Some ''dark''
   \<and> theme ((first_visit False)\<lparr>root := Some [''data-theme'' \<mapsto> ''sepia''],
        theme := JStr ''light''\<rparr>) = JStr ''light''
   \<and> applied_theme (toggle_and_render (toggle_and_render
        ((first_visit False)\<lparr>root := Some [''data-theme'' \<mapsto> ''sepia''],
          theme := JStr ''light''\<rparr>))) = Some ''light''"
  by (simp add: first_visit_def visit_with_def holder_defs js_defs applied_theme_def
      ThemeProvider_initial_def)

text \<open>
  C5, amended. From every state in which the cell holds \<open>light\<close> or \<open>dark\<close> and the
  root's \<open>data-theme\<close> attribute equals it, two toggles return the cell and the attribute
  to their original values, in both versions of the holder.
\<close>

theorem toggle_twice:
  assumes "theme s = JStr ''light'' \<or> theme s = JStr ''dark''"
    and "applied_theme s = Some (to_str (theme s))"
  shows "theme (toggle_and_render (toggle_and_render s)) = theme s
    \<and> applied_theme (toggle_and_render (toggle_and_render s)) = applied_theme s
    \<and> theme (toggle_and_render_ctx (toggle_and_render_ctx s)) = theme s
    \<and> applied_theme (toggle_and_render_ctx (toggle_and_render_ctx s)) = applied_theme s"
proof -
  from assms(2) obtain a where a: "root s = Some a" "a ''data-theme'' = Some (to_str (theme s))"
    by (auto simp add: applied_theme_def split: option.splits)
  from assms(1) show ?thesis
  proof
    assume "theme s = JStr ''light''"
    with a show ?thesis by (simp add: toggle_fields applied_theme_def)
  next
    assume "theme s = JStr ''dark''"
    with a show ?thesis by (simp add: toggle_fields applied_theme_def)
  qed
qed

theorem toggle_twice_witness:
  "theme (toggle_and_render (toggle_and_render
      ((first_visit False)\<lparr>root := Some [''data-theme'' \<mapsto> ''dark''],
          theme := JStr ''dark''\<rparr>))) = JStr ''dark''
   \<and> applied_theme (toggle_and_render (toggle_and_render
      ((first_visit False)\<lparr>root := Some [''data-theme'' \<mapsto> ''dark''],
          theme := JStr ''dark''\<rparr>))) = Some ''dark''"
  using toggle_twice [of "(first_visit False)\<lparr>root := Some [''data-theme'' \<mapsto> ''dark''],
          theme := JStr ''dark''\<rparr>"]
  by (simp add: first_visit_def applied_theme_def)

subsection \<open>The attribute follows the cell\<close>

lemma toggle_and_render_stamps:
  assumes "has_window s" and "root s \<noteq> None"
  shows "has_window (toggle_and_render s) \<and> root (toggle_and_render s) \<noteq> None
    \<and> applied_theme (toggle_and_render s) = Some (to_str (theme (toggle_and_render s)))"
  using assms by (auto simp add: toggle_fields applied_theme_def)

lemma toggle_and_render_ctx_stamps:
  assumes "has_window s" and "root s \<noteq> None"
  shows "has_window (toggle_and_render_ctx s) \<and> root (toggle_and_render_ctx s) \<noteq> None
    \<and> applied_theme (toggle_and_render_ctx s)
        = Some (to_str (theme (toggle_and_render_ctx s)))"
  using assms by (auto simp add: toggle_fields applied_theme_def)

lemma toggles_keep_stamped:
  assumes "has_window s" and "root s \<noteq> None"
    and "applied_theme s = Some (to_str (theme s))"
  shows "has_window ((toggle_and_render ^^ n) s) \<and> root ((toggle_and_render ^^ n) s) \<noteq> None
    \<and> applied_theme ((toggle_and_render ^^ n) s)
        = Some (to_str (theme ((toggle_and_render ^^ n) s)))"
proof (induction n)
  case 0
  from assms show ?case by simp
next
  case (Suc n)
  then show ?case using toggle_and_render_stamps [of "(toggle_and_render ^^ n) s"] by simp
qed

lemma toggles_ctx_keep_stamped:
  assumes "has_window s" and "root s \<noteq> None"
    and "applied_theme s = Some (to_str (theme s))"
  shows "has_window ((toggle_and_render_ctx ^^ n) s)
    \<and> root ((toggle_and_render_ctx ^^ n) s) \<noteq> None
    \<and> applied_theme ((toggle_and_render_ctx ^^ n) s)
        = Some (to_str (theme ((toggle_and_render_ctx ^^ n) s)))"
proof (induction n)
  case 0
  from assms show ?case by simp
next
  case (Suc n)
  then show ?case
    using toggle_and_render_ctx_stamps [of "(toggle_and_render_ctx ^^ n) s"] by simp
qed

lemma ThemeProvider_mount_stamps:
  assumes "has_window s" and "storage s = Some m" and "root s = Some a"
  shows "outcome ThemeProvider_mount s = Inr ()
    \<and> outcome ThemeProvider_initial s = Inr (theme (exec ThemeProvider_mount s))
    \<and> has_window (exec ThemeProvider_mount s) \<and> root (exec ThemeProvider_mount s) \<noteq> None
    \<and> applied_theme (exec ThemeProvider_mount s)
        = Some (to_str (theme (exec ThemeProvider_mount s)))"
  using assms
  by (simp add: ThemeProvider_mount_def ThemeProvider_effect_def setTheme_def
      ThemeProvider_initial_browser bindJ_def outcome_def exec_def setAttribute_def
      applied_theme_def)

lemma getInitialTheme_browser:
  assumes "has_window s" "storage s = Some m"
  shows "getInitialTheme s =
    (Inr (case m ''theme'' of
            None \<Rightarrow> JStr (if prefers_dark s then ''dark'' else ''light'')
          | Some v \<Rightarrow> if v = [] then JStr (if prefers_dark s then ''dark'' else ''light'')
                      else JStr v), s)"
  using assms by (simp add: getInitialTheme_def js_defs split: option.splits)

lemma ThemeProvider_mount_ctx_browser:
  assumes "has_window s" and "storage s = Some m" and "root s = Some a"
  shows "outcome ThemeProvider_mount_ctx s = Inr ()"
    and "outcome getInitialTheme s = Inr (theme (exec ThemeProvider_mount_ctx s))"
    and "has_window (exec ThemeProvider_mount_ctx s)"
    and "root (exec ThemeProvider_mount_ctx s)
          = Some (a(''data-theme'' \<mapsto> to_str (theme (exec ThemeProvider_mount_ctx s))))"
    and "storage (exec ThemeProvider_mount_ctx s)
          = Some (m(''theme'' \<mapsto> to_str (theme (exec ThemeProvider_mount_ctx s))))"
    and "truthy (theme (exec ThemeProvider_mount_ctx s))"
    and "JStr (to_str (theme (exec ThemeProvider_mount_ctx s)))
          = theme (exec ThemeProvider_mount_ctx s)"
  using assms
  by (simp_all add: ThemeProvider_mount_ctx_def ThemeProvider_effect_ctx_def setTheme_def
      getInitialTheme_browser bindJ_def outcome_def exec_def setAttribute_def setItem_def
      window_defined_def split: option.splits)

text \<open>
  C6. Once the holder has mounted in a browser with a store and a root element, the
  root's \<open>data-theme\<close> attribute equals the cell, after mounting and after every number of
  toggles, in both versions of the holder; and the effect of the lazily initialised
  holder stamps the cell's value on the root whatever the attribute was before.
\<close>

theorem applied_theme_follows_theme:
  assumes "has_window s" and "storage s = Some m" and "root s = Some a"
  shows "(\<forall>n. applied_theme ((toggle_and_render ^^ n) (exec ThemeProvider_mount s))
              = Some (to_str (theme ((toggle_and_render ^^ n) (exec ThemeProvider_mount s)))))
    \<and> applied_theme (exec ThemeProvider_effect s) = Some (to_str (theme s))
    \<and> (\<forall>n. applied_theme ((toggle_and_render_ctx ^^ n) (exec ThemeProvider_mount_ctx s))
              = Some (to_str
                  (theme ((toggle_and_render_ctx ^^ n) (exec ThemeProvider_mount_ctx s)))))"
proof (intro conjI allI)
  fix n
  show "applied_theme ((toggle_and_render ^^ n) (exec ThemeProvider_mount s))
      = Some (to_str (theme ((toggle_and_render ^^ n) (exec ThemeProvider_mount s))))"
    using ThemeProvider_mount_stamps [OF assms] toggles_keep_stamped by blast
next
  show "applied_theme (exec ThemeProvider_effect s) = Some (to_str (theme s))"
    using assms
    by (simp add: ThemeProvider_effect_def setAttribute_def exec_def applied_theme_def)
next
  fix n
  have "applied_theme (exec ThemeProvider_mount_ctx s)
      = Some (to_str (theme (exec ThemeProvider_mount_ctx s)))"
    using ThemeProvider_mount_ctx_browser(4) [OF assms] by (simp add: applied_theme_def)
  moreover have "root (exec ThemeProvider_mount_ctx s) \<noteq> None"
    using ThemeProvider_mount_ctx_browser(4) [OF assms] by simp
  ultimately show "applied_theme ((toggle_and_render_ctx ^^ n) (exec ThemeProvider_mount_ctx s))
      = Some (to_str (theme ((toggle_and_render_ctx ^^ n) (exec ThemeProvider_mount_ctx s))))"
    using ThemeProvider_mount_ctx_browser(3) [OF assms] toggles_ctx_keep_stamped by blast
qed

theorem applied_theme_follows_theme_witness:
  "applied_theme ((toggle_and_render ^^ 3) (exec ThemeProvider_mount (first_visit True)))
     = Some (to_str (theme ((toggle_and_render ^^ 3) (exec ThemeProvider_mount (first_visit True)))))
   \<and> applied_theme (exec ThemeProvider_effect
        ((first_visit True)\<lparr>root := Some [''data-theme'' \<mapsto> ''sepia''],
            theme := JStr ''dark''\<rparr>)) = Some ''dark''"
  using applied_theme_follows_theme [of "first_visit True" Map.empty Map.empty]
    applied_theme_follows_theme [of "(first_visit True)\<lparr>root := Some [''data-theme'' \<mapsto> ''sepia''],
            theme := JStr ''dark''\<rparr>" Map.empty "[''data-theme'' \<mapsto> ''sepia'']"]
  by (simp add: first_visit_def)

subsection \<open>The mount-time write of \<open>ThemeContext.js\<close>\<close>

lemma toggles_ctx_storage:
  "storage ((toggle_and_render_ctx ^^ n) s) = storage s
   \<and> has_window ((toggle_and_render_ctx ^^ n) s) = has_window s"
  by (induction n) (simp_all add: toggle_and_render_ctx_storage toggle_and_render_ctx_has_window)

text \<open>
  C10. In a browser with a store and a root element, mounting the holder of
  \<open>ThemeContext.js\<close> completes and writes the resolved theme under the key \<open>theme\<close>,
  whatever the store held before and without any toggle. From then on a persisted
  preference exists and is truthy, and every later resolution, after any number of
  toggles and under any system preference, by the holder or by the bootstrap script,
  returns the theme resolved at mount time.
\<close>

theorem mount_ctx_persists:
  assumes "has_window s" and "storage s = Some m" and "root s = Some a"
  shows "outcome ThemeProvider_mount_ctx s = Inr ()
    \<and> outcome getInitialTheme s = Inr (theme (exec ThemeProvider_mount_ctx s))
    \<and> persisted (exec ThemeProvider_mount_ctx s)
        = Some (to_str (theme (exec ThemeProvider_mount_ctx s)))
    \<and> to_str (theme (exec ThemeProvider_mount_ctx s)) \<noteq> []
    \<and> (\<forall>n d. persisted ((toggle_and_render_ctx ^^ n) (exec ThemeProvider_mount_ctx s))
                = persisted (exec ThemeProvider_mount_ctx s)
              \<and> outcome getInitialTheme
                  (((toggle_and_render_ctx ^^ n) (exec ThemeProvider_mount_ctx s))
                     \<lparr>prefers_dark := d\<rparr>)
                = Inr (theme (exec ThemeProvider_mount_ctx s))
              \<and> outcome getThemeScript_theme
                  (((toggle_and_render_ctx ^^ n) (exec ThemeProvider_mount_ctx s))
                     \<lparr>prefers_dark := d\<rparr>)
                = Inr (theme (exec ThemeProvider_mount_ctx s)))"
proof -
  let ?s = "exec ThemeProvider_mount_ctx s"
  note mnt = ThemeProvider_mount_ctx_browser [OF assms]
  have nonempty: "to_str (theme ?s) \<noteq> []"
    using mnt(6,7) by (cases "theme ?s") auto
  have later: "persisted ((toggle_and_render_ctx ^^ n) ?s) = persisted ?s
      \<and> outcome getInitialTheme (((toggle_and_render_ctx ^^ n) ?s)\<lparr>prefers_dark := d\<rparr>)
          = Inr (theme ?s)
      \<and> outcome getThemeScript_theme (((toggle_and_render_ctx ^^ n) ?s)\<lparr>prefers_dark := d\<rparr>)
          = Inr (theme ?s)" for n d
  proof -
    let ?t = "((toggle_and_render_ctx ^^ n) ?s)\<lparr>prefers_dark := d\<rparr>"
    have w: "has_window ?t" using toggles_ctx_storage [of n ?s] mnt(3) by simp
    have st: "storage ?t = Some (m(''theme'' \<mapsto> to_str (theme ?s)))"
      using toggles_ctx_storage [of n ?s] mnt(5) by simp
    show ?thesis
      using nonempty mnt(7) toggles_ctx_storage [of n ?s]
      by (simp add: outcome_def getInitialTheme_browser [OF w st]
          getThemeScript_theme_browser [OF w st] persisted_def)
  qed
  show ?thesis
    using mnt(1,2,5) nonempty later by (simp add: persisted_def)
qed

theorem mount_ctx_persists_witness:
  "theme (exec ThemeProvider_mount_ctx (first_visit True)) = JStr ''dark''
   \<and> persisted (exec ThemeProvider_mount_ctx (first_visit True)) = Some ''dark''
   \<and> outcome getInitialTheme
        (((toggle_and_render_ctx ^^ 0) (exec ThemeProvider_mount_ctx (first_visit True)))
           \<lparr>prefers_dark := False\<rparr>) = Inr (JStr ''dark'')"
proof -
  have browser: "has_window (first_visit True)" "storage (first_visit True) = Some Map.empty"
    "root (first_visit True) = Some Map.empty"
    by (simp_all add: first_visit_def)
  note mnt = mount_ctx_persists [OF browser]
  have "outcome getInitialTheme (first_visit True) = Inr (JStr ''dark'')"
    by (simp add: first_visit_def getInitialTheme_def js_defs)
  with mnt have th: "theme (exec ThemeProvider_mount_ctx (first_visit True)) = JStr ''dark''"
    by simp
  from mnt have "persisted (exec ThemeProvider_mount_ctx (first_visit True))
      = Some (to_str (theme (exec ThemeProvider_mount_ctx (first_visit True))))"
    by blast
  moreover from mnt have "outcome getInitialTheme
        (((toggle_and_render_ctx ^^ 0) (exec ThemeProvider_mount_ctx (first_visit True)))
           \<lparr>prefers_dark := False\<rparr>)
      = Inr (theme (exec ThemeProvider_mount_ctx (first_visit True)))"
    by blast
  ultimately show ?thesis unfolding th by simp
qed

end
